theory Spec2Isabelle
  imports Main "HOL-Library.AList" "HOL-Library.Char_ord" "HOL-Library.List_Lexorder"
begin

section \<open>Attribute values, errors and dictionaries\<close>

text \<open>
  The module \<^verbatim>\<open>src/xr_parser.py\<close> works on netCDF attribute dictionaries. An attribute
  value is a string, a number, Python's \<^verbatim>\<open>None\<close>, the sentinel \<^verbatim>\<open>ATTR_NOT_FOUND\<close>
  (a \<^verbatim>\<open>unittest.mock\<close>-style sentinel object: equal only to itself, and truthy like
  any plain object), a parsed unit object as returned by \<^verbatim>\<open>units.to_cfunits\<close>, or a
  numpy array: a netCDF attribute with several values, such as \<^verbatim>\<open>valid_range\<close>, is read
  as an array of two or more elements (\<open>VArray\<close> holds the first two and the rest).
  Numbers are integers here; floating-point attribute values are outside the model.
\<close>

datatype attr_val =
    ATTR_NOT_FOUND
  | VNone
  | VStr string
  | VNum int
  | VUnits string
  | VArray int int "int list"

text \<open>
  Python truthiness: \<^verbatim>\<open>bool(x)\<close> evaluates to \<^verbatim>\<open>True\<close>, as \<^verbatim>\<open>not ds_attr\<close> needs it. The
  truth value of an array of two or more elements cannot be taken (numpy raises
  \<^verbatim>\<open>ValueError\<close>: the truth value is ambiguous), so an array is not truthy. A comparison
  \<^verbatim>\<open>x == y\<close> or \<^verbatim>\<open>x != y\<close> with such an array on either side is elementwise and gives an
  array again; the functions below raise where the code takes the truth value of one.
\<close>

fun truthy :: "attr_val \<Rightarrow> bool" where
  "truthy ATTR_NOT_FOUND = True"
| "truthy VNone = False"
| "truthy (VStr s) = (s \<noteq> [])"
| "truthy (VNum n) = (n \<noteq> 0)"
| "truthy (VUnits u) = True"
| "truthy (VArray a b rest) = False"

fun is_array :: "attr_val \<Rightarrow> bool" where
  "is_array (VArray a b rest) = True"
| "is_array v = False"

text \<open>
  The text of an exception. Only the values interpolated into the f-string are kept, in
  the order in which they appear in the message.
\<close>

datatype message =
    NoMessage
  | NoAttrInDataset string attr_val attr_val
  | NotSetButPresent attr_val string attr_val
  | UnexpectedAttr string attr_val attr_val attr_val
  | TooManyAxes string string
  | MissingAxes string
  | MoreThanOneAxis string string
  | AttrNotFoundOn string string
  | NotAString
  | AmbiguousTruth

datatype error =
    KeyError string
  | NameError string
  | TypeError message
  | ValueError message
  | AttributeError string
  | AssertionError

text \<open>
  A dict is an association list in insertion order with pairwise distinct keys:
  \<^verbatim>\<open>d[k] = v\<close> is \<^const>\<open>AList.update\<close> (overwrite in place, or append),
  \<^verbatim>\<open>d.get(k)\<close> is \<^const>\<open>map_of\<close>, \<^verbatim>\<open>del d[k]\<close> is \<^const>\<open>AList.delete\<close>,
  \<^verbatim>\<open>d.keys()\<close> is \<open>map fst\<close>.
\<close>

type_synonym attrs = "(string \<times> attr_val) list"

definition dict_update :: "('k \<times> 'v) list \<Rightarrow> ('k \<times> 'v) list \<Rightarrow> ('k \<times> 'v) list" where
  \<comment> \<open>\<^verbatim>\<open>d.update(e)\<close>\<close>
  "dict_update d e = fold (\<lambda>(k, v) acc. AList.update k v acc) e d"

section \<open>String helpers\<close>

definition is_upper :: "char \<Rightarrow> bool" where
  "is_upper c = (let n = (of_char c :: nat) in 65 \<le> n \<and> n \<le> 90)"

definition is_lower :: "char \<Rightarrow> bool" where
  "is_lower c = (let n = (of_char c :: nat) in 97 \<le> n \<and> n \<le> 122)"

definition is_digit :: "char \<Rightarrow> bool" where
  "is_digit c = (let n = (of_char c :: nat) in 48 \<le> n \<and> n \<le> 57)"

definition is_letter :: "char \<Rightarrow> bool" where
  \<comment> \<open>the character class \<^verbatim>\<open>[a-zA-Z]\<close>\<close>
  "is_letter c = (is_upper c \<or> is_lower c)"

definition lower_char :: "char \<Rightarrow> char" where
  "lower_char c = (if is_upper c then char_of (of_char c + (32 :: nat)) else c)"

definition lower :: "string \<Rightarrow> string" where
  \<comment> \<open>\<^verbatim>\<open>s.lower()\<close> on the ASCII letters; other characters are dropped by
      \<open>str_munge\<close> whatever their case\<close>
  "lower s = map lower_char s"

definition str_munge :: "string \<Rightarrow> string" where
  \<comment> \<open>\<^verbatim>\<open>re.sub(r'[^a-z0-9]+', '', s.lower())\<close>\<close>
  "str_munge s = filter (\<lambda>c. is_lower c \<or> is_digit c) (lower s)"

definition startswith :: "string \<Rightarrow> string \<Rightarrow> bool" where
  \<comment> \<open>\<^verbatim>\<open>x.startswith(y)\<close>\<close>
  "startswith x y = (take (length y) x = y)"

definition isspace :: "char \<Rightarrow> bool" where
  \<comment> \<open>the characters \<^verbatim>\<open>str.strip()\<close> removes, among the 8-bit ones\<close>
  "isspace c = ((of_char c :: nat) \<in> {9, 10, 11, 12, 13, 28, 29, 30, 31, 32, 133, 160})"

definition strip :: "string \<Rightarrow> string" where
  "strip s = rev (dropWhile isspace (rev (dropWhile isspace s)))"

section \<open>guess\_attr\<close>

text \<open>
  \<^verbatim>\<open>DatasetParser.guess_attr\<close> is declared \<^verbatim>\<open>@staticmethod\<close>: its parameters are
  \<^verbatim>\<open>(attr_desc, attr_name, options, default=None, comparison_func=None)\<close> and there is no
  \<^verbatim>\<open>self\<close>. Its body nevertheless evaluates \<^verbatim>\<open>self.log.debug(...)\<close> on two paths:
  when more than one option passes the first comparison, and when exactly one option
  passes the comparison after munging. The module defines no global \<^verbatim>\<open>self\<close>, so
  on both paths Python raises \<^verbatim>\<open>NameError: name 'self' is not defined\<close> before the
  \<^verbatim>\<open>return\<close> is reached. The other paths do not log.
\<close>

definition guess_attr ::
  "string \<Rightarrow> string \<Rightarrow> string list \<Rightarrow> string option \<Rightarrow> (string \<Rightarrow> string \<Rightarrow> bool) option
     \<Rightarrow> error + string" where
  "guess_attr attr_desc attr_name options dflt comparison_func =
     (let cmp = (case comparison_func of None \<Rightarrow> (\<lambda>x y. x = y) | Some f \<Rightarrow> f);
          test_count = length (filter (\<lambda>opt. cmp opt attr_name) options)
      in if test_count > 1 then Inl (NameError ''self'')
         else if test_count \<ge> 1 then Inr attr_name
         else
           let munged_opts = map (\<lambda>opt. (cmp (str_munge opt) (str_munge attr_name), opt)) options
           in if length (filter fst munged_opts) = 1 then Inl (NameError ''self'')
              else (case dflt of
                      Some d \<Rightarrow> Inr d
                    | None \<Rightarrow> Inl (KeyError attr_name)))"

section \<open>The parser object\<close>

text \<open>
  \<^verbatim>\<open>DatasetParser.__init__\<close> reads both flags from an empty configuration dict, so they
  start as \<^verbatim>\<open>False\<close>; \<^verbatim>\<open>self.log\<close> starts as \<^verbatim>\<open>None\<close> and is set by \<^verbatim>\<open>parse\<close>.
  A logger that has been set is the list of the records emitted so far (level and
  format string; the interpolated arguments are not recorded).
\<close>

datatype level = DEBUG | WARNING | ERROR

record DatasetParser =
  skip_std_name :: bool
  skip_units :: bool
  fallback_cal :: string
  attrs_backup :: attrs
  var_attrs_restore :: "(string \<times> attrs) list"
  log :: "(level \<times> string) list option"

definition DatasetParser_init :: DatasetParser where
  "DatasetParser_init =
     \<lparr>skip_std_name = False, skip_units = False, fallback_cal = ''proleptic_gregorian'',
      attrs_backup = [], var_attrs_restore = [], log = None\<rparr>"

definition method_name :: "level \<Rightarrow> string" where
  "method_name lvl = (case lvl of DEBUG \<Rightarrow> ''debug'' | WARNING \<Rightarrow> ''warning'' | ERROR \<Rightarrow> ''error'')"

definition log_call :: "level \<Rightarrow> string \<Rightarrow> DatasetParser \<Rightarrow> error + DatasetParser" where
  \<comment> \<open>\<^verbatim>\<open>self.log.debug(...)\<close>, \<^verbatim>\<open>self.log.warning(...)\<close> inside an instance method;
      \<^verbatim>\<open>None\<close> has no such method\<close>
  "log_call lvl fmt self =
     (case log self of
        None \<Rightarrow> Inl (AttributeError (method_name lvl))
      | Some recs \<Rightarrow> Inr (self\<lparr>log := Some (recs @ [(lvl, fmt)])\<rparr>))"

section \<open>Attribute normalisation\<close>

definition cf_calendars :: "string list" where
  "cf_calendars =
     [''gregorian'', ''standard'', ''proleptic_gregorian'', ''julian'', ''noleap'',
      ''365_day'', ''all_leap'', ''366_day'', ''360_day'', ''none'']"

definition dict_get :: "('k \<times> attr_val) list \<Rightarrow> 'k \<Rightarrow> attr_val" where
  \<comment> \<open>\<^verbatim>\<open>d.get(k, ATTR_NOT_FOUND)\<close>\<close>
  "dict_get d k = (case map_of d k of None \<Rightarrow> ATTR_NOT_FOUND | Some v \<Rightarrow> v)"

text \<open>
  \<^verbatim>\<open>normalize_attr(self, new_attr_d, d, key_name, key_startswith=None)\<close> reads \<open>d\<close>,
  then writes \<open>new_attr_d[key_name]\<close>; the result is the updated \<open>new_attr_d\<close>. Only
  \<^verbatim>\<open>KeyError\<close> is caught around the two calls of \<open>guess_attr\<close>.
\<close>

definition normalize_attr :: "attrs \<Rightarrow> attrs \<Rightarrow> string \<Rightarrow> string option \<Rightarrow> error + attrs" where
  "normalize_attr new_attr_d d key_name key_startswith =
     (let found =
            (case guess_attr key_name key_name (map fst d) None None of
               Inr k \<Rightarrow> Inr (Some k)
             | Inl (KeyError _) \<Rightarrow>
                 (case key_startswith of
                    None \<Rightarrow> Inr None
                  | Some prefix \<Rightarrow>
                      (case guess_attr key_name prefix (map fst d) None (Some startswith) of
                         Inr k \<Rightarrow> Inr (Some k)
                       | Inl (KeyError _) \<Rightarrow> Inr None
                       | Inl e \<Rightarrow> Inl e))
             | Inl e \<Rightarrow> Inl e)
      in case found of
           Inl e \<Rightarrow> Inl e
         | Inr None \<Rightarrow> Inr (AList.update key_name ATTR_NOT_FOUND new_attr_d)
         | Inr (Some k) \<Rightarrow>
             if k \<noteq> key_name then Inr (AList.update key_name (dict_get d k) new_attr_d)
             else (case map_of d key_name of
                     None \<Rightarrow> Inl (KeyError key_name)
                   | Some v \<Rightarrow> Inr (AList.update key_name v new_attr_d)))"

definition normalize_standard_name :: "attrs \<Rightarrow> attrs \<Rightarrow> error + attrs" where
  "normalize_standard_name new_attr_d attr_d =
     normalize_attr new_attr_d attr_d ''standard_name'' (Some ''standard'')"

text \<open>
  \<^verbatim>\<open>re.sub(r"(?<![^a-zA-Z])([mM][bB])(?![^a-zA-Z])", "millibar", unit_str)\<close>: a scan from
  the left over non-overlapping matches. The look-behind \<^verbatim>\<open>(?<![^a-zA-Z])\<close> holds when
  the previous character is not a non-letter (it is a letter, or there is none); the
  look-ahead \<^verbatim>\<open>(?![^a-zA-Z])\<close> holds when the next character is a letter or there is
  none. \<open>prev\<close> is the character of the subject string before the current position.
\<close>

fun sub_mb :: "char option \<Rightarrow> string \<Rightarrow> string" where
  "sub_mb prev (c1 # c2 # rest) =
     (if (c1 = CHR ''m'' \<or> c1 = CHR ''M'') \<and> (c2 = CHR ''b'' \<or> c2 = CHR ''B'')
         \<and> (case prev of None \<Rightarrow> True | Some p \<Rightarrow> is_letter p)
         \<and> (case rest of [] \<Rightarrow> True | n # _ \<Rightarrow> is_letter n)
      then ''millibar'' @ sub_mb (Some c2) rest
      else c1 # sub_mb (Some c1) (c2 # rest))"
| "sub_mb prev s = s"

definition normalize_unit :: "attrs \<Rightarrow> attrs \<Rightarrow> error + attrs" where
  "normalize_unit new_attr_d attr_d =
     (case normalize_attr new_attr_d attr_d ''units'' (Some ''unit'') of
        Inl e \<Rightarrow> Inl e
      | Inr new_d \<Rightarrow>
          (case dict_get new_d ''units'' of
             ATTR_NOT_FOUND \<Rightarrow> Inr new_d
           | VStr unit_str \<Rightarrow> Inr (AList.update ''units'' (VStr (sub_mb None unit_str)) new_d)
           | _ \<Rightarrow> Inl (TypeError NotAString)))"

text \<open>
  \<^verbatim>\<open>normalize_calendar(self, attr_d)\<close> passes the same dict as target and as source. The
  test \<^verbatim>\<open>attr_d['calendar'] == ATTR_NOT_FOUND\<close> takes the truth value of a comparison, which
  raises for an array; any other value that is not a string makes \<^verbatim>\<open>str_munge\<close> fail
  on \<^verbatim>\<open>s.lower()\<close>.
\<close>

definition normalize_calendar :: "DatasetParser \<Rightarrow> attrs \<Rightarrow> error + attrs" where
  "normalize_calendar self attr_d =
     (case normalize_attr attr_d attr_d ''calendar'' (Some ''cal'') of
        Inl e \<Rightarrow> Inl e
      | Inr d1 \<Rightarrow>
          (case dict_get d1 ''calendar'' of
             ATTR_NOT_FOUND \<Rightarrow> Inr (AList.delete ''calendar'' d1)
           | VStr cal \<Rightarrow>
               (case guess_attr ''calendar'' cal cf_calendars (Some (fallback_cal self)) None of
                  Inl e \<Rightarrow> Inl e
                | Inr c \<Rightarrow> Inr (AList.update ''calendar'' (VStr c) d1))
           | VArray a b rest \<Rightarrow> Inl (ValueError AmbiguousTruth)
           | _ \<Rightarrow> Inl (AttributeError ''lower'')))"

section \<open>Datasets, backup and restoration of attributes\<close>

text \<open>
  The part of an xarray \<^verbatim>\<open>Dataset\<close> the module reads: the dataset-level attribute dict
  and, for each name in \<^verbatim>\<open>ds.variables\<close>, the variable's attribute dict and dimensions.
\<close>

record variable =
  v_attrs :: attrs
  v_dims :: "string list"

record dataset =
  ds_attrs :: attrs
  ds_variables :: "(string \<times> variable) list"

definition strip_val :: "attr_val \<Rightarrow> attr_val" where
  "strip_val v = (case v of VStr s \<Rightarrow> VStr (strip s) | _ \<Rightarrow> v)"

definition strip_attrs :: "attrs \<Rightarrow> attrs" where
  \<comment> \<open>\<^verbatim>\<open>{strip_(k): strip_(v) for k,v in d.items()}\<close>; \<open>strip_val\<close> is the nested \<^verbatim>\<open>strip_\<close>\<close>
  "strip_attrs d = fold (\<lambda>(k, v) acc. AList.update (strip k) (strip_val v) acc) d []"

text \<open>The loop \<^verbatim>\<open>for var in ds.variables\<close> of \<^verbatim>\<open>normalize_ds_attrs\<close>.\<close>

fun normalize_vars :: "DatasetParser \<Rightarrow> (string \<times> variable) list \<Rightarrow> error + DatasetParser" where
  "normalize_vars self [] = Inr self"
| "normalize_vars self ((var, v) # rest) =
     (let d = strip_attrs (v_attrs v) in
      case normalize_standard_name [] d of
        Inl e \<Rightarrow> Inl e
      | Inr new_d1 \<Rightarrow>
          (case normalize_unit new_d1 d of
             Inl e \<Rightarrow> Inl e
           | Inr new_d \<Rightarrow>
               (case normalize_calendar self d of
                  Inl e \<Rightarrow> Inl e
                | Inr d' \<Rightarrow>
                    normalize_vars
                      (self\<lparr>var_attrs_restore :=
                         AList.update var (dict_update d' new_d) (var_attrs_restore self)\<rparr>)
                      rest)))"

definition normalize_ds_attrs :: "DatasetParser \<Rightarrow> dataset \<Rightarrow> error + (DatasetParser \<times> dataset)" where
  "normalize_ds_attrs self ds =
     (let ds1 = ds\<lparr>ds_attrs := strip_attrs (ds_attrs ds)\<rparr>;
          self1 = self\<lparr>attrs_backup := ds_attrs ds1\<rparr>
      in case normalize_vars self1 (ds_variables ds1) of
           Inl e \<Rightarrow> Inl e
         | Inr self2 \<Rightarrow> Inr (self2, ds1))"

text \<open>
  The nested function \<^verbatim>\<open>_restore_one(name, backup_d, attrs_d)\<close> of \<^verbatim>\<open>restore_attrs\<close>.
  The condition \<^verbatim>\<open>v != attrs_d[k] and v != ATTR_NOT_FOUND\<close> takes the truth value of its
  first comparison, which raises when either side is an array.
\<close>

fun restore_one :: "DatasetParser \<Rightarrow> attrs \<Rightarrow> attrs \<Rightarrow> error + (DatasetParser \<times> attrs)" where
  "restore_one self [] attrs_d = Inr (self, attrs_d)"
| "restore_one self ((k, v) # backup_d) attrs_d =
     (let attrs_d1 = (if map_of attrs_d k = None then AList.update k v attrs_d else attrs_d) in
      if is_array v \<or> is_array (dict_get attrs_d1 k)
      then Inl (ValueError AmbiguousTruth)
      else if v \<noteq> dict_get attrs_d1 k \<and> v \<noteq> ATTR_NOT_FOUND
      then (case log_call DEBUG ''%s: discrepancy for attr %s'' self of
              Inl e \<Rightarrow> Inl e
            | Inr self1 \<Rightarrow> restore_one self1 backup_d attrs_d1)
      else restore_one self backup_d attrs_d1)"

fun restore_vars ::
  "DatasetParser \<Rightarrow> (string \<times> variable) list \<Rightarrow> error + (DatasetParser \<times> (string \<times> variable) list)" where
  "restore_vars self [] = Inr (self, [])"
| "restore_vars self ((var, v) # rest) =
     (case map_of (var_attrs_restore self) var of
        None \<Rightarrow> Inl (KeyError var)
      | Some backup_d \<Rightarrow>
          (case restore_one self backup_d (v_attrs v) of
             Inl e \<Rightarrow> Inl e
           | Inr (self1, a) \<Rightarrow>
               (case restore_vars self1 rest of
                  Inl e \<Rightarrow> Inl e
                | Inr (self2, rest') \<Rightarrow> Inr (self2, (var, v\<lparr>v_attrs := a\<rparr>) # rest'))))"

definition restore_attrs :: "DatasetParser \<Rightarrow> dataset \<Rightarrow> error + (DatasetParser \<times> dataset)" where
  "restore_attrs self ds =
     (case restore_one self (attrs_backup self) (ds_attrs ds) of
        Inl e \<Rightarrow> Inl e
      | Inr (self1, a) \<Rightarrow>
          (case restore_vars self1 (ds_variables ds) of
             Inl e \<Rightarrow> Inl e
           | Inr (self2, vs) \<Rightarrow> Inr (self2, ds\<lparr>ds_attrs := a, ds_variables := vs\<rparr>)))"

definition check_unit :: "DatasetParser \<Rightarrow> string \<times> variable \<Rightarrow> error + DatasetParser" where
  \<comment> \<open>the argument is the \<^verbatim>\<open>DataArray\<close> \<open>ds_var\<close>: its name and the variable\<close>
  "check_unit self ds_var =
     (if is_array (dict_get (v_attrs (snd ds_var)) ''units'')
      then Inl (ValueError AmbiguousTruth)
      else if dict_get (v_attrs (snd ds_var)) ''units'' = ATTR_NOT_FOUND
      then (if skip_units self
            then log_call WARNING ''units attribute not found'' self
            else Inl (TypeError (AttrNotFoundOn ''units'' (fst ds_var))))
      else Inr self)"

section \<open>Reconciling expected attributes with the dataset\<close>

text \<open>
  The expected-variable record (\<^verbatim>\<open>TranslatedVarlistEntry\<close> and its coordinates) is defined
  outside this module. The module reads and writes its attributes \<^verbatim>\<open>name\<close>,
  \<^verbatim>\<open>standard_name\<close>, \<^verbatim>\<open>units\<close> and \<^verbatim>\<open>bounds_var\<close>; any other attribute set through
  \<^verbatim>\<open>setattr\<close> lives in \<open>other\<close>. \<open>bounds_var\<close> holds the name of the bounds variable.
\<close>

record varlist_entry =
  name :: attr_val
  standard_name :: attr_val
  units :: attr_val
  bounds_var :: "string option"
  other :: attrs

definition getattr :: "varlist_entry \<Rightarrow> string \<Rightarrow> error + attr_val" where
  "getattr var attr_name =
     (if attr_name = ''name'' then Inr (name var)
      else if attr_name = ''standard_name'' then Inr (standard_name var)
      else if attr_name = ''units'' then Inr (units var)
      else (case map_of (other var) attr_name of
              None \<Rightarrow> Inl (AttributeError attr_name)
            | Some v \<Rightarrow> Inr v))"

definition setattr :: "varlist_entry \<Rightarrow> string \<Rightarrow> attr_val \<Rightarrow> varlist_entry" where
  "setattr var attr_name v =
     (if attr_name = ''name'' then var\<lparr>name := v\<rparr>
      else if attr_name = ''standard_name'' then var\<lparr>standard_name := v\<rparr>
      else if attr_name = ''units'' then var\<lparr>units := v\<rparr>
      else var\<lparr>other := AList.update attr_name v (other var)\<rparr>)"

text \<open>
  A call either returns or raises, and in both cases leaves a state behind: the objects it
  was given, as mutated up to that point.
\<close>

datatype 's outcome = Returns 's | Raises error 's

text \<open>
  \<^verbatim>\<open>compare_attr\<close> is a \<^verbatim>\<open>@staticmethod\<close> as well. Two of its branches start with a
  call on \<^verbatim>\<open>self.log\<close> and so raise \<^verbatim>\<open>NameError\<close> before their assignment: the
  update of the dataset side (\<^verbatim>\<open>update_ds\<close>), and the update of an unset expected
  attribute unless it is the name and already equal. The mismatch branch does not log.
  The state is the pair of \<open>our_var\<close> and \<open>ds_var\<close>; no reachable statement writes
  \<open>ds_var\<close>, whatever it is. The tests \<^verbatim>\<open>ds_attr == ATTR_NOT_FOUND or (not ds_attr)\<close>,
  \<^verbatim>\<open>not our_attr\<close> and \<^verbatim>\<open>our_var.name == ds_attr\<close> raise \<^verbatim>\<open>ValueError\<close> on an array; the
  assignment of \<open>can_update_our_var\<close> takes no truth value of \<open>ds_attr\<close>.
\<close>

definition compare_attr ::
  "varlist_entry \<times> string \<times> attr_val \<Rightarrow> 'd \<times> string \<times> attr_val
     \<Rightarrow> (attr_val \<Rightarrow> attr_val \<Rightarrow> bool) option \<Rightarrow> bool \<Rightarrow> bool \<Rightarrow> string option
     \<Rightarrow> (varlist_entry \<times> 'd) outcome" where
  "compare_attr our_attr_tuple ds_attr_tuple comparison_func update_our_var update_ds tiebreaker =
     (case our_attr_tuple of (our_var, our_attr_name, our_attr) \<Rightarrow>
      case ds_attr_tuple of (ds_var, ds_attr_name, ds_attr) \<Rightarrow>
      let cmp = (case comparison_func of None \<Rightarrow> (\<lambda>x y. x = y) | Some f \<Rightarrow> f);
          can_update_our_var = (update_our_var \<and> ds_attr \<noteq> ATTR_NOT_FOUND)
      in
      if tiebreaker \<notin> set [None, Some ''our_var'', Some ''ds'']
      then Raises (ValueError NoMessage) (our_var, ds_var)
      else if is_array ds_attr
      then Raises (ValueError AmbiguousTruth) (our_var, ds_var)
      else if ds_attr = ATTR_NOT_FOUND \<or> \<not> truthy ds_attr
      then (if update_ds
            then Raises (NameError ''self'') (our_var, ds_var)
            else Raises (TypeError (NoAttrInDataset ds_attr_name (name our_var) our_attr))
                   (our_var, ds_var))
      else if is_array our_attr
      then Raises (ValueError AmbiguousTruth) (our_var, ds_var)
      else if \<not> truthy our_attr
      then (if can_update_our_var
            then (if our_attr_name = ''name'' \<and> is_array (name our_var)
                  then Raises (ValueError AmbiguousTruth) (our_var, ds_var)
                  else if \<not> (our_attr_name = ''name'' \<and> name our_var = ds_attr)
                  then Raises (NameError ''self'') (our_var, ds_var)
                  else Returns (setattr our_var our_attr_name ds_attr, ds_var))
            else Raises (TypeError (NotSetButPresent (name our_var) ds_attr_name ds_attr))
                   (our_var, ds_var))
      else if \<not> cmp our_attr ds_attr
      then (let our_var1 =
                  (if can_update_our_var then setattr our_var our_attr_name ds_attr else our_var)
            in Raises (ValueError (UnexpectedAttr our_attr_name (name our_var1) ds_attr our_attr))
                 (our_var1, ds_var))
      else Returns (our_var, ds_var))"

definition reconcile_attr ::
  "varlist_entry \<Rightarrow> string \<times> variable \<Rightarrow> string \<Rightarrow> string option
     \<Rightarrow> (attr_val \<Rightarrow> attr_val \<Rightarrow> bool) option \<Rightarrow> bool \<Rightarrow> bool
     \<Rightarrow> (varlist_entry \<times> (string \<times> variable)) outcome" where
  "reconcile_attr our_var ds_var our_attr_name ds_attr_name comparison_func update_our_var update_ds =
     (let ds_attr_name1 = (case ds_attr_name of None \<Rightarrow> our_attr_name | Some n \<Rightarrow> n) in
      case getattr our_var our_attr_name of
        Inl e \<Rightarrow> Raises e (our_var, ds_var)
      | Inr our_attr \<Rightarrow>
          (let ds_attr = dict_get (v_attrs (snd ds_var)) ds_attr_name1 in
           compare_attr (our_var, our_attr_name, our_attr) (ds_var, ds_attr_name1, ds_attr)
             comparison_func update_our_var update_ds None))"

text \<open>
  The unit subsystem (\<^verbatim>\<open>src/units.py\<close>) is outside this module; its three functions
  are parameters of the model. The comparators are taken to return a truth value.
\<close>

record units_api =
  units_equivalent :: "attr_val \<Rightarrow> attr_val \<Rightarrow> bool"
  units_equal :: "attr_val \<Rightarrow> attr_val \<Rightarrow> bool"
  to_cfunits :: "attr_val \<Rightarrow> attr_val"

definition reconcile_units ::
  "units_api \<Rightarrow> DatasetParser \<Rightarrow> varlist_entry \<Rightarrow> string \<times> variable
     \<Rightarrow> (DatasetParser \<times> varlist_entry \<times> (string \<times> variable)) outcome" where
  "reconcile_units U self our_var ds_var =
     (case check_unit self ds_var of
        Inl e \<Rightarrow> Raises e (self, our_var, ds_var)
      | Inr self1 \<Rightarrow>
          (case reconcile_attr our_var ds_var ''units'' None (Some (units_equivalent U))
                  True (skip_units self1) of
             Raises e (our_var1, ds_var1) \<Rightarrow> Raises e (self1, our_var1, ds_var1)
           | Returns (our_var1, ds_var1) \<Rightarrow>
               (case reconcile_attr our_var1 ds_var1 ''units'' None (Some (units_equal U))
                       True (skip_units self1) of
                  Returns (our_var2, ds_var2) \<Rightarrow> Returns (self1, our_var2, ds_var2)
                | Raises (ValueError m) (our_var2, ds_var2) \<Rightarrow>
                    (case log_call WARNING ''Caught %s.'' self1 of
                       Inl e \<Rightarrow> Raises e (self1, our_var2, ds_var2)
                     | Inr self2 \<Rightarrow>
                         Returns (self2, our_var2\<lparr>units := to_cfunits U (units our_var2)\<rparr>,
                                  ds_var2))
                | Raises e (our_var2, ds_var2) \<Rightarrow> Raises e (self1, our_var2, ds_var2))))"

text \<open>
  \<^verbatim>\<open>ds.cf.get_bounds(name)\<close> belongs to cf\_xarray: a parameter, giving the name of the
  bounds variable or an error (\<^verbatim>\<open>KeyError\<close> when there is none).
\<close>

definition set_variable :: "dataset \<Rightarrow> string \<times> variable \<Rightarrow> dataset" where
  "set_variable ds nv = ds\<lparr>ds_variables := AList.update (fst nv) (snd nv) (ds_variables ds)\<rparr>"

definition reconcile_coord_bounds ::
  "units_api \<Rightarrow> (dataset \<Rightarrow> string \<Rightarrow> error + string) \<Rightarrow> DatasetParser \<Rightarrow> varlist_entry
     \<Rightarrow> dataset \<Rightarrow> string \<Rightarrow> (DatasetParser \<times> varlist_entry \<times> dataset) outcome" where
  "reconcile_coord_bounds U get_bounds self our_coord ds ds_coord_name =
     (case get_bounds ds ds_coord_name of
        Inl (KeyError _) \<Rightarrow> Returns (self, our_coord\<lparr>bounds_var := None\<rparr>, ds)
      | Inl e \<Rightarrow> Raises e (self, our_coord, ds)
      | Inr bname \<Rightarrow>
          (case map_of (ds_variables ds) bname of
             None \<Rightarrow> Raises (KeyError bname) (self, our_coord, ds)
           | Some bv \<Rightarrow>
               (case reconcile_attr our_coord (bname, bv) ''standard_name'' None None False True of
                  Raises e (c1, b1) \<Rightarrow> Raises e (self, c1, set_variable ds b1)
                | Returns (c1, b1) \<Rightarrow>
                    (case reconcile_attr c1 b1 ''units'' None (Some (units_equal U)) False True of
                       Raises e (c2, b2) \<Rightarrow> Raises e (self, c2, set_variable ds b2)
                     | Returns (c2, b2) \<Rightarrow>
                         (if is_array (name c2)
                          then Raises (ValueError AmbiguousTruth) (self, c2, set_variable ds b2)
                          else if name c2 \<noteq> VStr (fst b2)
                          then (case log_call DEBUG ''Updating %s for %s to value %s from dataset.'' self of
                                  Inl e \<Rightarrow> Raises e (self, c2, set_variable ds b2)
                                | Inr self1 \<Rightarrow>
                                    Returns (self1, c2\<lparr>bounds_var := Some (fst b2)\<rparr>,
                                             set_variable ds b2))
                          else Returns (self, c2\<lparr>bounds_var := Some (fst b2)\<rparr>,
                                        set_variable ds b2))))))"

section \<open>Axes of a dataset or of one variable\<close>

text \<open>
  The classification of coordinates by axis is cf\_xarray's
  \<^verbatim>\<open>apply_mapper(_get_axis_coord, axes_obj, key, error=False)\<close>: a parameter
  \<open>axis_coord\<close>, applied to \<open>None\<close> for the whole dataset or to \<open>Some var_name\<close> for
  \<^verbatim>\<open>ds[var_name]\<close>, and to an axis label; it gives a list of names.
\<close>

definition AXIS_NAMES :: "string list" where
  "AXIS_NAMES = [''X'', ''Y'', ''Z'', ''T'']"

datatype coord = DataArray string | PlaceholderScalarCoordinate string string

datatype axis_entry = One coord | Many "coord list"

text \<open>
  The validation loop of \<^verbatim>\<open>_old_axes_dict\<close> over \<^verbatim>\<open>vardict.items()\<close>; its state is
  \<open>(empty_keys, delete_keys, dims_list)\<close>.
\<close>

fun validate_axes ::
  "string \<Rightarrow> (string \<times> string list) list \<Rightarrow> string list \<times> string list \<times> string list
     \<Rightarrow> error + (string list \<times> string list \<times> string list)" where
  "validate_axes var_name [] st = Inr st"
| "validate_axes var_name ((k, v) # rest) (empty_keys, delete_keys, dims_list) =
     (if length v > 1 then Inl (TypeError (TooManyAxes k var_name))
      else if length v = 1
      then (if hd v \<notin> set dims_list
            then validate_axes var_name rest (empty_keys, delete_keys @ [k], dims_list)
            else validate_axes var_name rest (empty_keys, delete_keys, remove1 (hd v) dims_list))
      else validate_axes var_name rest (empty_keys @ [k], delete_keys, dims_list))"

definition sorted_nonempty :: "(string \<times> string list) list \<Rightarrow> (string \<times> string list) list" where
  \<comment> \<open>\<^verbatim>\<open>{k: sorted(v) for k, v in vardict.items() if v}\<close>\<close>
  "sorted_nonempty vardict = map (\<lambda>(k, v). (k, sort v)) (filter (\<lambda>(k, v). v \<noteq> []) vardict)"

definition old_axes_dict ::
  "(string option \<Rightarrow> string \<Rightarrow> string list) \<Rightarrow> dataset \<Rightarrow> string option
     \<Rightarrow> error + (string \<times> string list) list" where
  "old_axes_dict axis_coord ds var_name =
     (case var_name of
        None \<Rightarrow> Inr (sorted_nonempty (map (\<lambda>key. (key, axis_coord None key)) AXIS_NAMES))
      | Some vn \<Rightarrow>
          (case map_of (ds_variables ds) vn of
             None \<Rightarrow> Inl (KeyError vn)
           | Some axes_obj \<Rightarrow>
               (let vardict = map (\<lambda>key. (key, axis_coord (Some vn) key)) AXIS_NAMES in
                case validate_axes vn vardict ([], [], v_dims axes_obj) of
                  Inl e \<Rightarrow> Inl e
                | Inr (empty_keys, delete_keys, dims_list) \<Rightarrow>
                    (case (if length dims_list > 0
                           then (if length dims_list = 1 \<and> length empty_keys = 1
                                 then Inr (AList.update (hd empty_keys) [hd dims_list] vardict)
                                 else Inl (TypeError (MissingAxes vn)))
                           else Inr vardict) of
                       Inl e \<Rightarrow> Inl e
                     | Inr vardict1 \<Rightarrow>
                         Inr (sorted_nonempty
                                (fold (\<lambda>k d. AList.update k [] d) delete_keys vardict1))))))"

definition var_dims :: "dataset \<Rightarrow> string \<Rightarrow> string list" where
  \<comment> \<open>\<^verbatim>\<open>ds[var_name].dims\<close>, for a name already looked up by \<open>old_axes_dict\<close>\<close>
  "var_dims ds vn = (case map_of (ds_variables ds) vn of None \<Rightarrow> [] | Some v \<Rightarrow> v_dims v)"

text \<open>The inner loop of \<^verbatim>\<open>axes\<close> over the names of one axis, giving \<open>new_coords\<close>.\<close>

fun resolve_coords ::
  "dataset \<Rightarrow> string option \<Rightarrow> string list option \<Rightarrow> string \<Rightarrow> string list
     \<Rightarrow> error + coord list" where
  "resolve_coords ds var_name filter_set ax [] = Inr []"
| "resolve_coords ds var_name filter_set ax (c # cs) =
     (if c = [] \<or> (case filter_set of None \<Rightarrow> False | Some fs \<Rightarrow> c \<notin> set fs)
      then resolve_coords ds var_name filter_set ax cs
      else if c \<in> set (map fst (ds_variables ds))
      then (case resolve_coords ds var_name filter_set ax cs of
              Inl e \<Rightarrow> Inl e
            | Inr new_coords \<Rightarrow> Inr (DataArray c # new_coords))
      else if (case var_name of None \<Rightarrow> False | Some vn \<Rightarrow> c \<in> set (var_dims ds vn))
      then Inl AssertionError
      else (case resolve_coords ds var_name filter_set ax cs of
              Inl e \<Rightarrow> Inl e
            | Inr new_coords \<Rightarrow> Inr (PlaceholderScalarCoordinate c ax # new_coords)))"

text \<open>The outer loop of \<^verbatim>\<open>axes\<close> over \<^verbatim>\<open>axes_d.items()\<close>, filling the dict \<open>d\<close>.\<close>

fun build_axes ::
  "dataset \<Rightarrow> string option \<Rightarrow> string list option \<Rightarrow> (string \<times> string list) list
     \<Rightarrow> (string \<times> axis_entry) list \<Rightarrow> error + (string \<times> axis_entry) list" where
  "build_axes ds var_name filter_set [] d = Inr d"
| "build_axes ds var_name filter_set ((ax, coord_names) # rest) d =
     (case resolve_coords ds var_name filter_set ax coord_names of
        Inl e \<Rightarrow> Inl e
      | Inr new_coords \<Rightarrow>
          (if new_coords \<noteq> []
           then (case var_name of
                   Some vn \<Rightarrow>
                     (if length new_coords \<noteq> 1 then Inl (TypeError (MoreThanOneAxis ax vn))
                      else build_axes ds var_name filter_set rest
                             (AList.update ax (One (hd new_coords)) d))
                 | None \<Rightarrow>
                     build_axes ds var_name filter_set rest (AList.update ax (Many new_coords) d))
           else build_axes ds var_name filter_set rest d))"

definition axes ::
  "(string option \<Rightarrow> string \<Rightarrow> string list) \<Rightarrow> dataset \<Rightarrow> string option \<Rightarrow> string list option
     \<Rightarrow> error + (string \<times> axis_entry) list" where
  "axes axis_coord ds var_name filter_set =
     (case old_axes_dict axis_coord ds var_name of
        Inl e \<Rightarrow> Inl e
      | Inr axes_d \<Rightarrow> build_axes ds var_name filter_set axes_d [])"

section \<open>Notions used in the statements\<close>

text \<open>
  No key of a dict is a spelling of \<open>key_name\<close> that \<^verbatim>\<open>normalize_attr\<close> looks for:
  none equals it, none equals it after munging, and none starts with the prefix, before
  or after munging.
\<close>

definition no_spelling_of :: "string \<Rightarrow> string \<Rightarrow> string list \<Rightarrow> bool" where
  "no_spelling_of key_name prefix keys =
     list_all (\<lambda>k. k \<noteq> key_name \<and> str_munge k \<noteq> str_munge key_name
                  \<and> \<not> startswith k prefix \<and> \<not> startswith (str_munge k) (str_munge prefix)) keys"

text \<open>
  \<^verbatim>\<open>normalize_ds_attrs\<close> followed by \<^verbatim>\<open>restore_attrs\<close> on the same dataset, with no
  decode step between them (in \<^verbatim>\<open>parse\<close> the decode and axis-guess steps of xarray and
  cf\_xarray stand between the two calls).
\<close>

definition round_trip :: "DatasetParser \<Rightarrow> dataset \<Rightarrow> error + (DatasetParser \<times> dataset)" where
  "round_trip self ds =
     (case normalize_ds_attrs self ds of
        Inl e \<Rightarrow> Inl e
      | Inr (self1, ds1) \<Rightarrow> restore_attrs self1 ds1)"





section \<open>Sample inputs\<close>

text \<open>
  The scenario of the specification: the expected variable \<^verbatim>\<open>pr_var\<close> with units
  \<^verbatim>\<open>kg m-2 s-1\<close>, and the dataset variable \<^verbatim>\<open>pr\<close> with units \<^verbatim>\<open>mm/day\<close>.
\<close>

definition sample_var :: varlist_entry where
  "sample_var =
     \<lparr>name = VStr ''pr_var'', standard_name = VStr ''precipitation_flux'',
      units = VStr ''kg m-2 s-1'', bounds_var = Some ''old_bnds'', other = []\<rparr>"

definition sample_ds_var :: "string \<times> variable" where
  "sample_ds_var =
     (''pr'', \<lparr>v_attrs = [(''units'', VStr ''mm/day'')], v_dims = [''time'', ''lat'', ''lon'']\<rparr>)"

text \<open>
  A small dataset around \<^verbatim>\<open>pr\<close>, a bounds lookup that finds nothing, and a sample
  unit subsystem: the canonical form of a unit string is the unit object of that string,
  two units are equal when their canonical forms are, and \<^verbatim>\<open>kg m-2 s-1\<close> and
  \<^verbatim>\<open>mm/day\<close> are equivalent.
\<close>

definition sample_ds :: dataset where
  "sample_ds =
     \<lparr>ds_attrs = [(''title'', VStr ''sample'')],
      ds_variables =
        [sample_ds_var,
         (''time'', \<lparr>v_attrs = [(''units'', VStr ''days since 1970-01-01'')], v_dims = [''time'']\<rparr>),
         (''lat'', \<lparr>v_attrs = [(''units'', VStr ''degrees_north'')], v_dims = [''lat'']\<rparr>),
         (''lon'', \<lparr>v_attrs = [(''units'', VStr ''degrees_east'')], v_dims = [''lon'']\<rparr>),
         (''lon2'', \<lparr>v_attrs = [(''units'', VStr ''degrees_east'')], v_dims = [''lon'']\<rparr>)]\<rparr>"

definition no_bounds :: "dataset \<Rightarrow> string \<Rightarrow> error + string" where
  "no_bounds ds coord_name = Inl (KeyError coord_name)"

definition sample_to_cfunits :: "attr_val \<Rightarrow> attr_val" where
  "sample_to_cfunits v = (case v of VStr s \<Rightarrow> VUnits s | _ \<Rightarrow> v)"

definition sample_units :: units_api where
  "sample_units =
     \<lparr>units_equivalent =
        (\<lambda>a b. a = b \<or> (a \<in> set [VStr ''kg m-2 s-1'', VStr ''mm/day'']
                         \<and> b \<in> set [VStr ''kg m-2 s-1'', VStr ''mm/day''])),
      units_equal = (\<lambda>a b. sample_to_cfunits a = sample_to_cfunits b),
      to_cfunits = sample_to_cfunits\<rparr>"

text \<open>The parser once \<^verbatim>\<open>parse\<close> has set \<^verbatim>\<open>self.log\<close>, before anything is logged.\<close>

definition sample_parser :: DatasetParser where
  "sample_parser = DatasetParser_init\<lparr>log := Some []\<rparr>"

text \<open>
  Two classifications of the sample dataset: one coordinate for each of X, Y and T, and
  one that finds two X coordinates.
\<close>

definition sample_axis_coord :: "string option \<Rightarrow> string \<Rightarrow> string list" where
  "sample_axis_coord obj key =
     (if key = ''X'' then [''lon''] else if key = ''Y'' then [''lat'']
      else if key = ''T'' then [''time''] else [])"

definition two_lon_axis_coord :: "string option \<Rightarrow> string \<Rightarrow> string list" where
  "two_lon_axis_coord obj key =
     (if key = ''X'' then [''lon2'', ''lon''] else sample_axis_coord obj key)"







text \<open>
  Two datasets whose only variable has no units under any spelling: one whose variable
  has its standard name under a capitalised key, and one whose variable has an
  array-valued attribute.
\<close>

definition capitalised_ds :: dataset where
  "capitalised_ds =
     \<lparr>ds_attrs = [],
      ds_variables =
        [(''ta'', \<lparr>v_attrs = [(''Standard_Name'', VStr ''air_temperature'')], v_dims = [''time'']\<rparr>)]\<rparr>"

definition range_ds :: dataset where
  "range_ds =
     \<lparr>ds_attrs = [],
      ds_variables =
        [(''ta'', \<lparr>v_attrs = [(''valid_range'', VArray 150 350 [])], v_dims = [''time'']\<rparr>)]\<rparr>"

definition range_parser :: DatasetParser where
  "range_parser =
     sample_parser\<lparr>var_attrs_restore :=
       [(''ta'', [(''valid_range'', VArray 150 350 []), (''standard_name'', ATTR_NOT_FOUND),
                  (''units'', ATTR_NOT_FOUND)])]\<rparr>"

section \<open>compare\_attr: the mismatch branch\<close>


lemma truthy_not_array: "truthy v \<Longrightarrow> \<not> is_array v"
  by (cases v) simp_all




section \<open>reconcile\_coord\_bounds without a bounds variable\<close>

text \<open>
  Claim C9. When the bounds lookup of the dataset raises \<^verbatim>\<open>KeyError\<close> for the
  coordinate, \<^verbatim>\<open>reconcile_coord_bounds\<close> returns without raising, the expected
  coordinate's \<^verbatim>\<open>bounds_var\<close> is \<^verbatim>\<open>None\<close>, and every other attribute of the expected
  coordinate, the dataset and the parser are as before: the state returned differs from
  the one given in that field only.
\<close>

theorem reconcile_coord_bounds_no_bounds:
  assumes "get_bounds ds ds_coord_name = Inl (KeyError k)"
  shows "reconcile_coord_bounds U get_bounds self our_coord ds ds_coord_name
           = Returns (self, our_coord\<lparr>bounds_var := None\<rparr>, ds)"
  using assms by (simp add: reconcile_coord_bounds_def)

theorem reconcile_coord_bounds_no_bounds_witness:
  "reconcile_coord_bounds sample_units no_bounds DatasetParser_init sample_var sample_ds ''lat''
     = Returns (DatasetParser_init, sample_var\<lparr>bounds_var := None\<rparr>, sample_ds)
   \<and> bounds_var sample_var = Some ''old_bnds''"
  using reconcile_coord_bounds_no_bounds [of no_bounds sample_ds "''lat''" "''lat''" sample_units
          DatasetParser_init sample_var]
  by (simp add: no_bounds_def sample_var_def)

section \<open>reconcile\_units on equivalent but unequal units\<close>

text \<open>
  Claim C2, as amended. When the expected variable and the dataset variable both carry
  units that the unit subsystem finds equivalent but not equal, and a logger is set,
  \<^verbatim>\<open>reconcile_units\<close> returns without raising and logs one warning; the dataset
  variable is unchanged, and the expected variable's units are the canonical form of the
  dataset's units: the mismatch branch of \<^verbatim>\<open>compare_attr\<close> has overwritten the expected
  units with the dataset's before the \<^verbatim>\<open>ValueError\<close> is caught, and
  \<^verbatim>\<open>our_var.units = units.to_cfunits(our_var.units)\<close> reads the overwritten value.
\<close>

theorem reconcile_units_equivalent_not_equal:
  assumes "log self = Some recs"
    and "dict_get (v_attrs (snd ds_var)) ''units'' = ds_units"
    and "ds_units \<noteq> ATTR_NOT_FOUND" and "truthy ds_units"
    and "truthy (units our_var)"
    and "units_equivalent U (units our_var) ds_units"
    and "\<not> units_equal U (units our_var) ds_units"
  shows "reconcile_units U self our_var ds_var
           = Returns (self\<lparr>log := Some (recs @ [(WARNING, ''Caught %s.'')])\<rparr>,
                      our_var\<lparr>units := to_cfunits U ds_units\<rparr>, ds_var)"
proof -
  have na: "\<not> is_array ds_units" "\<not> is_array (units our_var)"
    using assms(4,5) by (simp_all add: truthy_not_array)
  have chk: "check_unit self ds_var = Inr self"
    using assms(2,3) na by (simp add: check_unit_def)
  have first: "reconcile_attr our_var ds_var ''units'' None (Some (units_equivalent U)) True (skip_units self)
                 = Returns (our_var, ds_var)"
    using assms(2-6) na by (simp add: reconcile_attr_def getattr_def compare_attr_def)
  have second: "reconcile_attr our_var ds_var ''units'' None (Some (units_equal U)) True (skip_units self)
                 = Raises (ValueError (UnexpectedAttr ''units'' (name our_var) ds_units (units our_var)))
                     (our_var\<lparr>units := ds_units\<rparr>, ds_var)"
    using assms(2-5,7) na by (simp add: reconcile_attr_def getattr_def compare_attr_def setattr_def)
  have lg: "log_call WARNING ''Caught %s.'' self = Inr (self\<lparr>log := Some (recs @ [(WARNING, ''Caught %s.'')])\<rparr>)"
    using assms(1) by (simp add: log_call_def)
  show ?thesis
    by (simp add: reconcile_units_def chk first second lg)
qed

theorem reconcile_units_equivalent_not_equal_witness:
  "reconcile_units sample_units sample_parser sample_var sample_ds_var
     = Returns (sample_parser\<lparr>log := Some [(WARNING, ''Caught %s.'')]\<rparr>,
                sample_var\<lparr>units := VUnits ''mm/day''\<rparr>, sample_ds_var)"
  using reconcile_units_equivalent_not_equal [of sample_parser "[]" sample_ds_var "VStr ''mm/day''"
          sample_var sample_units]
  by (simp add: sample_parser_def sample_var_def sample_ds_var_def sample_units_def
        sample_to_cfunits_def dict_get_def DatasetParser_init_def)

text \<open>
  The claim as stated has the canonical form of the original expected units instead. In
  the scenario of the specification the result is the canonical form of \<^verbatim>\<open>mm/day\<close>,
  which is not that of \<^verbatim>\<open>kg m-2 s-1\<close>.
\<close>

theorem reconcile_units_canonical_counterexample:
  "units sample_var = VStr ''kg m-2 s-1''
   \<and> dict_get (v_attrs (snd sample_ds_var)) ''units'' = VStr ''mm/day''
   \<and> units_equivalent sample_units (VStr ''kg m-2 s-1'') (VStr ''mm/day'')
   \<and> \<not> units_equal sample_units (VStr ''kg m-2 s-1'') (VStr ''mm/day'')
   \<and> reconcile_units sample_units sample_parser sample_var sample_ds_var
       = Returns (sample_parser\<lparr>log := Some [(WARNING, ''Caught %s.'')]\<rparr>,
                  sample_var\<lparr>units := to_cfunits sample_units (VStr ''mm/day'')\<rparr>, sample_ds_var)
   \<and> to_cfunits sample_units (VStr ''mm/day'') \<noteq> to_cfunits sample_units (VStr ''kg m-2 s-1'')"
  by (simp add: reconcile_units_def check_unit_def reconcile_attr_def getattr_def compare_attr_def
        setattr_def log_call_def sample_parser_def sample_var_def sample_ds_var_def sample_units_def
        sample_to_cfunits_def dict_get_def DatasetParser_init_def Let_def)

section \<open>Facts about guess\_attr and normalize\_attr\<close>

lemma filter_none: "list_all (\<lambda>x. \<not> P x) xs \<Longrightarrow> filter P xs = []"
  by (induction xs) auto

lemma count_distinct:
  "distinct xs \<Longrightarrow> x \<in> set xs \<Longrightarrow> length (filter (\<lambda>y. y = x) xs) = 1"
  by (induction xs) (auto simp add: filter_empty_conv)

lemma guess_attr_exact:
  assumes "distinct options" and "attr_name \<in> set options"
  shows "guess_attr attr_desc attr_name options dflt None = Inr attr_name"
  using count_distinct [OF assms] by (simp add: guess_attr_def)

lemma guess_attr_no_match:
  assumes "cmp = (case comparison_func of None \<Rightarrow> (\<lambda>x y. x = y) | Some f \<Rightarrow> f)"
    and "list_all (\<lambda>opt. \<not> cmp opt attr_name) options"
    and "list_all (\<lambda>opt. \<not> cmp (str_munge opt) (str_munge attr_name)) options"
  shows "guess_attr attr_desc attr_name options dflt comparison_func
           = (case dflt of Some d \<Rightarrow> Inr d | None \<Rightarrow> Inl (KeyError attr_name))"
proof -
  have a: "filter (\<lambda>opt. cmp opt attr_name) options = []"
    using assms(2) by (rule filter_none)
  have b: "filter fst (map (\<lambda>opt. (cmp (str_munge opt) (str_munge attr_name), opt)) options) = []"
    using assms(3) by (induction options) auto
  show ?thesis
    using a b unfolding assms(1) by (simp add: guess_attr_def)
qed

lemma filter_fst_munged:
  "filter fst (map (\<lambda>opt. (P opt, opt)) options) = map (\<lambda>opt. (True, opt)) (filter P options)"
  by (induction options) auto

lemma guess_attr_munged_unique:
  assumes "attr_name \<notin> set options"
    and "length (filter (\<lambda>opt. str_munge opt = str_munge attr_name) options) = 1"
  shows "guess_attr attr_desc attr_name options dflt None = Inl (NameError ''self'')"
proof -
  have a: "filter (\<lambda>opt. opt = attr_name) options = []"
    using assms(1) by (induction options) auto
  show ?thesis
    using assms(2) by (simp add: guess_attr_def a filter_fst_munged)
qed

lemma guess_attr_munged_ambiguous:
  assumes "attr_name \<notin> set options"
    and "length (filter (\<lambda>opt. str_munge opt = str_munge attr_name) options) \<ge> 2"
  shows "guess_attr attr_desc attr_name options dflt None
           = (case dflt of Some d \<Rightarrow> Inr d | None \<Rightarrow> Inl (KeyError attr_name))"
proof -
  have a: "filter (\<lambda>opt. opt = attr_name) options = []"
    using assms(1) by (induction options) auto
  show ?thesis
    using assms(2) by (simp add: guess_attr_def a filter_fst_munged)
qed

lemma normalize_attr_exact:
  assumes "distinct (map fst d)" and "map_of d key_name = Some v"
  shows "normalize_attr new_attr_d d key_name key_startswith = Inr (AList.update key_name v new_attr_d)"
proof -
  have "key_name \<in> set (map fst d)"
    using assms(2) by (metis map_of_eq_None_iff option.distinct(1) set_map)
  then have "guess_attr key_name key_name (map fst d) None None = Inr key_name"
    using assms(1) by (rule guess_attr_exact [rotated])
  then show ?thesis
    using assms(2) by (simp add: normalize_attr_def)
qed

lemma normalize_attr_absent:
  assumes "no_spelling_of key_name prefix (map fst d)"
  shows "normalize_attr new_attr_d d key_name (Some prefix)
           = Inr (AList.update key_name ATTR_NOT_FOUND new_attr_d)"
proof -
  have l1: "list_all (\<lambda>opt. \<not> opt = key_name) (map fst d)"
    and l2: "list_all (\<lambda>opt. \<not> str_munge opt = str_munge key_name) (map fst d)"
    and l3: "list_all (\<lambda>opt. \<not> startswith opt prefix) (map fst d)"
    and l4: "list_all (\<lambda>opt. \<not> startswith (str_munge opt) (str_munge prefix)) (map fst d)"
    using assms by (simp_all add: no_spelling_of_def list_all_iff)
  have g1: "guess_attr key_name key_name (map fst d) None None = Inl (KeyError key_name)"
    using guess_attr_no_match [of "\<lambda>x y. x = y" None key_name "map fst d" key_name None] l1 l2
    by simp
  have g2: "guess_attr key_name prefix (map fst d) None (Some startswith) = Inl (KeyError prefix)"
    using guess_attr_no_match [of startswith "Some startswith" prefix "map fst d" key_name None] l3 l4
    by simp
  show ?thesis
    by (simp add: normalize_attr_def g1 g2)
qed

section \<open>guess\_attr on a case-insensitive match\<close>

text \<open>
  Claim C3. The claim has \<^verbatim>\<open>guess_attr\<close> return the single option that matches after
  munging. In the code that path evaluates \<^verbatim>\<open>self.log.debug\<close> inside a static method and
  raises \<^verbatim>\<open>NameError\<close>, with or without a default: here for the name \<^verbatim>\<open>units\<close> and
  the options \<^verbatim>\<open>Units\<close>, \<^verbatim>\<open>long_name\<close>. (The second half of the claim holds, see
  \<open>guess_attr_munged_ambiguous\<close>; the general form of the failure is
  \<open>guess_attr_munged_unique\<close>.)
\<close>

theorem guess_attr_munged_match_raises:
  "''units'' \<notin> set [''Units'', ''long_name'']
   \<and> filter (\<lambda>opt. str_munge opt = str_munge ''units'') [''Units'', ''long_name''] = [''Units'']
   \<and> guess_attr ''units'' ''units'' [''Units'', ''long_name''] None None = Inl (NameError ''self'')
   \<and> guess_attr ''units'' ''units'' [''Units'', ''long_name''] (Some ''fallback'') None
       = Inl (NameError ''self'')"
  by code_simp

section \<open>normalize\_attr\<close>

text \<open>
  Claim C4. The claim has \<^verbatim>\<open>normalize_attr\<close> never raise and store the value found
  under a case-insensitive or prefix match. In the code a key found only after munging
  (\<^verbatim>\<open>Units\<close>, or \<^verbatim>\<open>UNIT_str\<close> by prefix) raises \<^verbatim>\<open>NameError\<close> out of
  \<^verbatim>\<open>guess_attr\<close>, which \<^verbatim>\<open>except KeyError\<close> does not catch, and so do two keys with
  the prefix; a single key starting with the prefix (\<^verbatim>\<open>unit_str\<close>) makes
  \<^verbatim>\<open>guess_attr\<close> return the prefix itself, which is no key of the dict, so the
  sentinel is stored and not the value \<^verbatim>\<open>K\<close>. (A key present verbatim is copied, see
  \<open>normalize_attr_exact\<close>.)
\<close>

theorem normalize_attr_failing_inputs:
  "normalize_attr [] [(''Units'', VStr ''K'')] ''units'' (Some ''unit'') = Inl (NameError ''self'')
   \<and> normalize_attr [] [(''unit_str'', VStr ''K'')] ''units'' (Some ''unit'')
       = Inr [(''units'', ATTR_NOT_FOUND)]
   \<and> normalize_attr [] [(''unit_a'', VStr ''K''), (''unit_b'', VStr ''Pa'')] ''units'' (Some ''unit'')
       = Inl (NameError ''self'')
   \<and> normalize_attr [] [(''UNIT_str'', VStr ''K'')] ''units'' (Some ''unit'')
       = Inl (NameError ''self'')"
  by code_simp

section \<open>normalize\_unit and the token mb\<close>

text \<open>
  Claim C8. The claim (and the comment above the regular expression) has \<^verbatim>\<open>mb\<close>
  replaced when the characters around it are not letters. The two look-arounds are
  negations of a negated class, so the code replaces \<^verbatim>\<open>mb\<close> exactly when each
  neighbour is a letter or missing: \<^verbatim>\<open>mb\<close> alone becomes \<^verbatim>\<open>millibar\<close>, but
  \<^verbatim>\<open>5 mb\<close> is left as it is, and \<^verbatim>\<open>number\<close> and \<^verbatim>\<open>kmb\<close> are rewritten.
\<close>

theorem normalize_unit_mb_examples:
  "normalize_unit [] [(''units'', VStr ''mb'')] = Inr [(''units'', VStr ''millibar'')]
   \<and> normalize_unit [] [(''units'', VStr ''5 mb'')] = Inr [(''units'', VStr ''5 mb'')]
   \<and> normalize_unit [] [(''units'', VStr ''number'')] = Inr [(''units'', VStr ''numillibarer'')]
   \<and> normalize_unit [] [(''units'', VStr ''kmb'')] = Inr [(''units'', VStr ''kmillibar'')]"
  by code_simp

section \<open>normalize\_calendar\<close>

lemma distinct_cf_calendars: "distinct cf_calendars"
  by (simp add: cf_calendars_def)

lemma normalize_calendar_capitalised_raises:
  "normalize_calendar DatasetParser_init [(''calendar'', VStr ''Gregorian'')] = Inl (NameError ''self'')
   \<and> normalize_calendar DatasetParser_init [(''calendar'', VStr ''GREGORIAN'')]
       = Inl (NameError ''self'')"
  by code_simp

text \<open>
  Claim C7, as amended. \<^verbatim>\<open>normalize_calendar\<close> leaves a dict without the key
  \<^verbatim>\<open>calendar\<close> when no key is a spelling of \<^verbatim>\<open>calendar\<close> or starts with \<^verbatim>\<open>cal\<close>.
  When the key \<^verbatim>\<open>calendar\<close> holds a string, the string is looked up in the fixed
  vocabulary: an entry of the vocabulary, such as \<^verbatim>\<open>gregorian\<close>, is kept as it is, and
  a string that matches no entry even after munging, such as \<^verbatim>\<open>std\<close>, is replaced by
  the parser's fallback calendar, \<^verbatim>\<open>proleptic_gregorian\<close> for a new parser. (What
  happens to a string that matches an entry only after munging is left out here.)
\<close>

theorem normalize_calendar_cases:
  "(no_spelling_of ''calendar'' ''cal'' (map fst attr_d) \<longrightarrow>
      normalize_calendar self attr_d = Inr attr_d \<and> map_of attr_d ''calendar'' = None)
   \<and> (distinct (map fst attr_d) \<and> map_of attr_d ''calendar'' = Some (VStr cal)
        \<and> cal \<in> set cf_calendars \<longrightarrow>
      normalize_calendar self attr_d = Inr attr_d)
   \<and> (distinct (map fst attr_d) \<and> map_of attr_d ''calendar'' = Some (VStr cal)
        \<and> str_munge cal \<notin> set (map str_munge cf_calendars) \<longrightarrow>
      normalize_calendar self attr_d
        = Inr (AList.update ''calendar'' (VStr (fallback_cal self)) attr_d))
   \<and> fallback_cal DatasetParser_init = ''proleptic_gregorian''"
proof (intro conjI impI)
  assume a: "no_spelling_of ''calendar'' ''cal'' (map fst attr_d)"
  then have notin: "''calendar'' \<notin> fst ` set attr_d"
    by (auto simp add: no_spelling_of_def list_all_iff)
  then show "map_of attr_d ''calendar'' = None"
    by (simp add: map_of_eq_None_iff)
  have "normalize_attr attr_d attr_d ''calendar'' (Some ''cal'')
          = Inr (AList.update ''calendar'' ATTR_NOT_FOUND attr_d)"
    using a by (rule normalize_attr_absent)
  then show "normalize_calendar self attr_d = Inr attr_d"
    using notin by (simp add: normalize_calendar_def dict_get_def update_conv' delete_update_same)
next
  assume a: "distinct (map fst attr_d) \<and> map_of attr_d ''calendar'' = Some (VStr cal)
        \<and> cal \<in> set cf_calendars"
  then have n: "normalize_attr attr_d attr_d ''calendar'' (Some ''cal'') = Inr attr_d"
    by (simp add: normalize_attr_exact update_triv)
  have g: "guess_attr ''calendar'' cal cf_calendars (Some (fallback_cal self)) None = Inr cal"
    using a distinct_cf_calendars by (simp add: guess_attr_exact)
  show "normalize_calendar self attr_d = Inr attr_d"
    using a by (simp add: normalize_calendar_def n g dict_get_def update_triv)
next
  assume a: "distinct (map fst attr_d) \<and> map_of attr_d ''calendar'' = Some (VStr cal)
        \<and> str_munge cal \<notin> set (map str_munge cf_calendars)"
  then have n: "normalize_attr attr_d attr_d ''calendar'' (Some ''cal'') = Inr attr_d"
    by (simp add: normalize_attr_exact update_triv)
  have ne: "str_munge opt \<noteq> str_munge cal" if "opt \<in> set cf_calendars" for opt
    using a that by (metis imageI set_map)
  have l1: "list_all (\<lambda>opt. \<not> opt = cal) cf_calendars"
    and l2: "list_all (\<lambda>opt. \<not> str_munge opt = str_munge cal) cf_calendars"
    using ne by (auto simp add: list_all_iff)
  have g: "guess_attr ''calendar'' cal cf_calendars (Some (fallback_cal self)) None
             = Inr (fallback_cal self)"
    using guess_attr_no_match [of "\<lambda>x y. x = y" None cal cf_calendars "''calendar''"
            "Some (fallback_cal self)"] l1 l2
    by simp
  show "normalize_calendar self attr_d
          = Inr (AList.update ''calendar'' (VStr (fallback_cal self)) attr_d)"
    using a by (simp add: normalize_calendar_def n g dict_get_def)
next
  show "fallback_cal DatasetParser_init = ''proleptic_gregorian''"
    by (simp add: DatasetParser_init_def)
qed

theorem normalize_calendar_cases_witness:
  "normalize_calendar DatasetParser_init [(''long_name'', VStr ''time'')]
     = Inr [(''long_name'', VStr ''time'')]
   \<and> normalize_calendar DatasetParser_init [(''calendar'', VStr ''gregorian'')]
       = Inr [(''calendar'', VStr ''gregorian'')]
   \<and> normalize_calendar DatasetParser_init [(''calendar'', VStr ''std'')]
       = Inr [(''calendar'', VStr ''proleptic_gregorian'')]"
proof -
  have h1: "no_spelling_of ''calendar'' ''cal'' (map fst [(''long_name'', VStr ''time'')])"
    by code_simp
  have h2: "''gregorian'' \<in> set cf_calendars"
    by (simp add: cf_calendars_def)
  have h3: "str_munge ''std'' \<notin> set (map str_munge cf_calendars)"
    by code_simp
  show ?thesis
    using normalize_calendar_cases [of "[(''long_name'', VStr ''time'')]" DatasetParser_init "''x''"]
      normalize_calendar_cases [of "[(''calendar'', VStr ''gregorian'')]" DatasetParser_init "''gregorian''"]
      normalize_calendar_cases [of "[(''calendar'', VStr ''std'')]" DatasetParser_init "''std''"]
      h1 h2 h3
    by simp
qed

text \<open>
  The claim as stated has \<^verbatim>\<open>std\<close> canonicalize to the same entry as \<^verbatim>\<open>gregorian\<close>.
  The value \<^verbatim>\<open>std\<close> is mapped to the fallback calendar, also when it is found under
  the key \<^verbatim>\<open>cal\<close>, while \<^verbatim>\<open>gregorian\<close> is mapped to itself.
\<close>

theorem normalize_calendar_std_counterexample:
  "normalize_calendar DatasetParser_init [(''calendar'', VStr ''std'')]
     = Inr [(''calendar'', VStr ''proleptic_gregorian'')]
   \<and> normalize_calendar DatasetParser_init [(''cal'', VStr ''std'')]
       = Inr [(''cal'', VStr ''std''), (''calendar'', VStr ''proleptic_gregorian'')]
   \<and> normalize_calendar DatasetParser_init [(''calendar'', VStr ''gregorian'')]
       = Inr [(''calendar'', VStr ''gregorian'')]
   \<and> ''proleptic_gregorian'' \<noteq> ''gregorian''"
  by code_simp

section \<open>Axes of one variable and of the whole dataset\<close>

lemma set_update_subset: "set (AList.update k v al) \<subseteq> insert (k, v) (set al)"
  by (induction al) auto

lemma build_axes_single:
  assumes "build_axes ds (Some vn) fs axes_d d = Inr r"
    and "distinct (map fst d)" and "\<forall>(ax, e) \<in> set d. \<exists>c. e = One c"
  shows "distinct (map fst r) \<and> (\<forall>(ax, e) \<in> set r. \<exists>c. e = One c)"
  using assms
proof (induction axes_d arbitrary: d)
  case Nil
  then show ?case by simp
next
  case (Cons p axes_d)
  obtain ax coord_names where p: "p = (ax, coord_names)" by (cases p)
  show ?case
  proof (cases "resolve_coords ds (Some vn) fs ax coord_names")
    case (Inl e)
    with Cons.prems(1) p show ?thesis by simp
  next
    case (Inr new_coords)
    show ?thesis
    proof (cases "new_coords = []")
      case True
      with Cons Inr p show ?thesis by simp
    next
      case False
      with Cons.prems(1) Inr p have len: "length new_coords = 1"
        by (simp split: if_splits)
      let ?d = "AList.update ax (One (hd new_coords)) d"
      have rec: "build_axes ds (Some vn) fs axes_d ?d = Inr r"
        using Cons.prems(1) Inr p False len by simp
      have d1: "distinct (map fst ?d)"
        using Cons.prems(2) by (rule distinct_update)
      have d2: "\<forall>(ax, e) \<in> set ?d. \<exists>c. e = One c"
        using Cons.prems(3) set_update_subset [of ax "One (hd new_coords)" d] by auto
      show ?thesis
        using Cons.IH [OF rec d1 d2] .
    qed
  qed
qed

lemma validate_axes_too_many:
  assumes "(k, v) \<in> set vardict" and "length v > 1"
  shows "\<exists>k'. (\<exists>v'. (k', v') \<in> set vardict \<and> length v' > 1)
             \<and> validate_axes vn vardict st = Inl (TypeError (TooManyAxes k' vn))"
  using assms
proof (induction vn vardict st rule: validate_axes.induct)
  case (1 var_name st)
  then show ?case by simp
next
  case (2 var_name k0 v0 rest empty_keys delete_keys dims_list)
  show ?case
  proof (cases "length v0 > 1")
    case True
    then show ?thesis by auto
  next
    case False
    with "2.prems" have inrest: "(k, v) \<in> set rest" by auto
    show ?thesis
    proof (cases "length v0 = 1")
      case True
      show ?thesis
      proof (cases "hd v0 \<notin> set dims_list")
        case True
        from "2.IH"(1) [OF False \<open>length v0 = 1\<close> True inrest "2.prems"(2)] False \<open>length v0 = 1\<close> True
        show ?thesis by auto
      next
        case False
        from "2.IH"(2) [OF \<open>\<not> 1 < length v0\<close> \<open>length v0 = 1\<close> False inrest "2.prems"(2)]
          \<open>\<not> 1 < length v0\<close> \<open>length v0 = 1\<close> False
        show ?thesis by auto
      qed
    next
      case F2: False
      from "2.IH"(3) [OF False F2 inrest "2.prems"(2)] False F2
      show ?thesis by auto
    qed
  qed
qed

lemma resolve_coords_dataset: "\<exists>r. resolve_coords ds None fs ax cs = Inr r"
  by (induction cs) auto

lemma build_axes_dataset:
  assumes "\<forall>(ax, e) \<in> set d. \<exists>cs. e = Many cs"
  shows "\<exists>r. build_axes ds None fs axes_d d = Inr r \<and> (\<forall>(ax, e) \<in> set r. \<exists>cs. e = Many cs)"
  using assms
proof (induction axes_d arbitrary: d)
  case Nil
  then show ?case by simp
next
  case (Cons p axes_d)
  obtain ax coord_names where p: "p = (ax, coord_names)" by (cases p)
  obtain new_coords where nc: "resolve_coords ds None fs ax coord_names = Inr new_coords"
    using resolve_coords_dataset by blast
  show ?case
  proof (cases "new_coords = []")
    case True
    with Cons p nc show ?thesis by simp
  next
    case False
    have "\<forall>(ax, e) \<in> set (AList.update ax (Many new_coords) d). \<exists>cs. e = Many cs"
      using Cons.prems set_update_subset [of ax "Many new_coords" d] by auto
    from Cons.IH [OF this] p nc False show ?thesis by simp
  qed
qed

text \<open>
  Claim C6. When \<^verbatim>\<open>axes\<close> is computed for one variable and returns, every axis label of
  the result is mapped once, to one coordinate. When the classification gives two or
  more names for some axis of a variable of the dataset, the call raises the
  \<^verbatim>\<open>TypeError\<close> "Too many ... axes" for an axis with more than one name. When no
  variable is given the call never raises and maps every label to a list of coordinates;
  for the sample dataset classified with two X coordinates, X is mapped to both.
\<close>

theorem axes_single_variable_vs_dataset:
  "(axes axis_coord ds (Some vn) fs = Inr d \<longrightarrow>
      distinct (map fst d) \<and> (\<forall>(a, e) \<in> set d. \<exists>c. e = One c))
   \<and> (map_of (ds_variables ds) vn = Some v \<and> ax \<in> set AXIS_NAMES
        \<and> length (axis_coord (Some vn) ax) > 1 \<longrightarrow>
      (\<exists>k. k \<in> set AXIS_NAMES \<and> length (axis_coord (Some vn) k) > 1
           \<and> axes axis_coord ds (Some vn) fs = Inl (TypeError (TooManyAxes k vn))))
   \<and> (\<exists>d'. axes axis_coord ds None fs = Inr d' \<and> (\<forall>(a, e) \<in> set d'. \<exists>cs. e = Many cs))
   \<and> axes two_lon_axis_coord sample_ds None None
       = Inr [(''X'', Many [DataArray ''lon'', DataArray ''lon2'']),
              (''Y'', Many [DataArray ''lat'']), (''T'', Many [DataArray ''time''])]"
proof (intro conjI impI)
  assume a: "axes axis_coord ds (Some vn) fs = Inr d"
  then obtain axes_d where "build_axes ds (Some vn) fs axes_d [] = Inr d"
    by (auto simp add: axes_def split: sum.splits)
  from build_axes_single [OF this]
  show "distinct (map fst d)" and "\<forall>(a, e) \<in> set d. \<exists>c. e = One c"
    by simp_all
next
  assume a: "map_of (ds_variables ds) vn = Some v \<and> ax \<in> set AXIS_NAMES
        \<and> length (axis_coord (Some vn) ax) > 1"
  let ?vardict = "map (\<lambda>key. (key, axis_coord (Some vn) key)) AXIS_NAMES"
  have "(ax, axis_coord (Some vn) ax) \<in> set ?vardict"
    using a by auto
  from validate_axes_too_many [OF this, of vn "([], [], v_dims v)"] a
  obtain k v' where kv: "(k, v') \<in> set ?vardict" "length v' > 1"
    and val: "validate_axes vn ?vardict ([], [], v_dims v) = Inl (TypeError (TooManyAxes k vn))"
    by blast
  from kv have "k \<in> set AXIS_NAMES \<and> length (axis_coord (Some vn) k) > 1"
    by auto
  moreover have "axes axis_coord ds (Some vn) fs = Inl (TypeError (TooManyAxes k vn))"
    using a val by (simp add: axes_def old_axes_dict_def)
  ultimately show "\<exists>k. k \<in> set AXIS_NAMES \<and> length (axis_coord (Some vn) k) > 1
           \<and> axes axis_coord ds (Some vn) fs = Inl (TypeError (TooManyAxes k vn))"
    by blast
next
  show "\<exists>d'. axes axis_coord ds None fs = Inr d' \<and> (\<forall>(a, e) \<in> set d'. \<exists>cs. e = Many cs)"
    using build_axes_dataset [of "[]" ds fs]
    by (simp add: axes_def old_axes_dict_def)
next
  show "axes two_lon_axis_coord sample_ds None None
       = Inr [(''X'', Many [DataArray ''lon'', DataArray ''lon2'']),
              (''Y'', Many [DataArray ''lat'']), (''T'', Many [DataArray ''time''])]"
    by code_simp
qed

theorem axes_single_variable_vs_dataset_witness:
  "axes sample_axis_coord sample_ds (Some ''pr'') None
     = Inr [(''X'', One (DataArray ''lon'')), (''Y'', One (DataArray ''lat'')),
            (''T'', One (DataArray ''time''))]
   \<and> axes two_lon_axis_coord sample_ds (Some ''pr'') None = Inl (TypeError (TooManyAxes ''X'' ''pr''))"
proof -
  have e1: "axes sample_axis_coord sample_ds (Some ''pr'') None
     = Inr [(''X'', One (DataArray ''lon'')), (''Y'', One (DataArray ''lat'')),
            (''T'', One (DataArray ''time''))]"
    by code_simp
  have e2: "axes two_lon_axis_coord sample_ds (Some ''pr'') None = Inl (TypeError (TooManyAxes ''X'' ''pr''))"
    by code_simp
  have h: "map_of (ds_variables sample_ds) ''pr'' = Some (snd sample_ds_var) \<and> ''X'' \<in> set AXIS_NAMES
        \<and> length (two_lon_axis_coord (Some ''pr'') ''X'') > 1"
    by (simp add: sample_ds_def sample_ds_var_def AXIS_NAMES_def two_lon_axis_coord_def)
  show ?thesis
    using axes_single_variable_vs_dataset [of sample_axis_coord sample_ds "''pr''" None
            "[(''X'', One (DataArray ''lon'')), (''Y'', One (DataArray ''lat'')), (''T'', One (DataArray ''time''))]"
            "snd sample_ds_var" "''X''"]
          axes_single_variable_vs_dataset [of two_lon_axis_coord sample_ds "''pr''" None
            "[]" "snd sample_ds_var" "''X''"]
          e1 e2 h
    by simp
qed

section \<open>Backup and restoration: what a round trip changes\<close>






































section \<open>Normalisation of a plain dataset completes\<close>






section \<open>The round trip\<close>

lemma list_all2_names:
  "list_all2 (\<lambda>(n, v) (n', v'). n' = n \<and> Q n v v') xs ys \<Longrightarrow> map fst ys = map fst xs"
  by (induction xs ys rule: list_all2_induct) auto

lemma list_all2_member:
  "list_all2 R xs ys \<Longrightarrow> x \<in> set xs \<Longrightarrow> \<exists>y \<in> set ys. R x y"
  by (induction xs ys rule: list_all2_induct) auto







section \<open>A variable without units\<close>

text \<open>
  What \<^verbatim>\<open>check_unit\<close> does with a variable whose \<^verbatim>\<open>units\<close> hold the sentinel: the same
  as with the key deleted, which is the \<^verbatim>\<open>TypeError\<close> when \<^verbatim>\<open>skip_units\<close> is off and
  one logged warning when it is on. That the round trip stores the sentinel, when it
  completes, is part of \<open>round_trip_result\<close>.
\<close>

lemma check_unit_on_sentinel:
  assumes "map_of (v_attrs v2) ''units'' = Some ATTR_NOT_FOUND"
  shows "check_unit p (var, v2)
           = check_unit p (var, v2\<lparr>v_attrs := AList.delete ''units'' (v_attrs v2)\<rparr>)"
    and "\<not> skip_units p \<Longrightarrow> check_unit p (var, v2) = Inl (TypeError (AttrNotFoundOn ''units'' var))"
    and "skip_units p \<Longrightarrow> log p = Some l \<Longrightarrow>
           check_unit p (var, v2)
             = Inr (p\<lparr>log := Some (l @ [(WARNING, ''units attribute not found'')])\<rparr>)"
  using assms by (simp_all add: check_unit_def dict_get_def delete_conv' log_call_def)

text \<open>
  Claim C10. The claim has the sentinel stored for every variable that lacks units. Two
  datasets whose only variable has no key that is a spelling of \<^verbatim>\<open>units\<close>, with a
  logger set: on the first, whose variable has its standard name under the key
  \<^verbatim>\<open>Standard_Name\<close>, \<^verbatim>\<open>normalize_ds_attrs\<close> raises the \<^verbatim>\<open>NameError\<close> of
  \<^verbatim>\<open>guess_attr\<close> and nothing is stored; on the second, whose variable has an
  array-valued attribute, \<^verbatim>\<open>normalize_ds_attrs\<close> completes and records the sentinel
  in the backup, but \<^verbatim>\<open>restore_attrs\<close> raises the \<^verbatim>\<open>ValueError\<close> of the comparison
  in \<^verbatim>\<open>_restore_one\<close> before the variable gets its \<^verbatim>\<open>units\<close>.
\<close>

theorem missing_units_failing_inputs:
  "no_spelling_of ''units'' ''unit''
     (map fst (strip_attrs (v_attrs (snd (hd (ds_variables capitalised_ds))))))
   \<and> normalize_ds_attrs sample_parser capitalised_ds = Inl (NameError ''self'')
   \<and> round_trip sample_parser capitalised_ds = Inl (NameError ''self'')
   \<and> no_spelling_of ''units'' ''unit''
       (map fst (strip_attrs (v_attrs (snd (hd (ds_variables range_ds))))))
   \<and> normalize_ds_attrs sample_parser range_ds = Inr (range_parser, range_ds)
   \<and> restore_attrs range_parser range_ds = Inl (ValueError AmbiguousTruth)
   \<and> round_trip sample_parser range_ds = Inl (ValueError AmbiguousTruth)"
  by code_simp

end
